theory Spec2Isabelle
  imports Complex_Main "HOL-Library.Word"
begin

section \<open>Values shared by the whole model\<close>

text \<open>
  Python floats are modelled as \<^typ>\<open>real\<close>. An exception raised inside a \<open>try\<close> block is
  the left summand of a result; the handlers of the source turn it into a value again.
\<close>

datatype py_exn =
  ValueError | IndexError | KeyError | TypeError | ZeroDivisionError
  | NotFittedError | OSError | cv2_error

text \<open>
  A NumPy array of floats: its shape and its elements in row-major order. A list of
  equally long rows becomes a two-dimensional array under \<open>np.array\<close>, and the empty list
  the one-dimensional array of shape \<open>(0,)\<close>.
\<close>

datatype ndarray = Array (shape: "nat list") (elems: "real list")

definition np_array :: "real list list \<Rightarrow> ndarray" where
  "np_array rows =
     (case rows of [] \<Rightarrow> Array [0] []
      | r # _ \<Rightarrow> Array [length rows, length r] (concat rows))"



text \<open>\<open>a.reshape(1, -1)\<close>: one row holding all the elements.\<close>

definition reshape_row :: "ndarray \<Rightarrow> ndarray" where
  "reshape_row a = Array [1, length (elems a)] (elems a)"

text \<open>An array is well formed when it has as many elements as its shape says.\<close>

definition wf_array :: "ndarray \<Rightarrow> bool" where
  "wf_array a \<longleftrightarrow> length (elems a) = prod_list (shape a)"

section \<open>Synthetic data generator (\<open>SkinAnalyzer.generate_synthetic_data\<close>)\<close>

text \<open>
  The process-wide NumPy generator is an explicit state of type \<open>'g\<close>; what
  \<open>np.random.seed\<close> and one standard-normal draw do to it belongs to NumPy and is a
  parameter of the model.
\<close>

record 'g rng =
  seed :: "nat \<Rightarrow> 'g"
  gauss :: "'g \<Rightarrow> real \<times> 'g"

text \<open>\<open>np.random.normal(loc, scale, size)\<close>: \<open>size\<close> draws, each \<open>loc + scale * z\<close>.\<close>

fun normal :: "'g rng \<Rightarrow> real \<Rightarrow> real \<Rightarrow> nat \<Rightarrow> 'g \<Rightarrow> real list \<times> 'g" where
  "normal R loc scale 0 g = ([], g)"
| "normal R loc scale (Suc k) g =
     (case gauss R g of (z, g1) \<Rightarrow>
        (case normal R loc scale k g1 of (zs, g2) \<Rightarrow> ((loc + scale * z) # zs, g2)))"

text \<open>\<open>np.clip(a, a_min, a_max)\<close> on one element.\<close>

definition clip :: "real \<Rightarrow> real \<Rightarrow> real \<Rightarrow> real" where
  "clip a_min a_max x = min a_max (max x a_min)"

text \<open>The prototype and the noise scale chosen by the \<open>if skin_type == ...\<close> chain.\<close>

definition base_features :: "nat \<Rightarrow> real list" where
  "base_features skin_type =
     (if skin_type = 0 then
        [0.5, 0.3, 0.4, 0.1, 0.1, 0.1, 0.4, 0.0, 0.0, 0.1, 0.1, 0.1, 0.3, 0.2, 0.3, 0.4, 0.2, 0.3]
      else if skin_type = 1 then
        [0.5, 0.6, 0.7, 0.1, 0.1, 0.1, 0.6, 0.0, 0.0, 0.1, 0.1, 0.1, 0.7, 0.3, 0.5, 0.1, 0.6, 0.5]
      else if skin_type = 2 then
        [0.5, 0.4, 0.5, 0.1, 0.1, 0.1, 0.5, 0.0, 0.0, 0.1, 0.1, 0.1, 0.5, 0.25, 0.4, 0.25, 0.4, 0.4]
      else
        [0.5, 0.3, 0.4, 0.15, 0.15, 0.15, 0.4, 0.0, 0.0, 0.15, 0.15, 0.15, 0.6, 0.4, 0.3, 0.3, 0.5, 0.5])"

definition noise_scale :: "nat \<Rightarrow> real" where
  "noise_scale skin_type =
     (if skin_type = 0 then 0.1
      else if skin_type = 1 then 0.1
      else if skin_type = 2 then 0.15
      else 0.12)"

text \<open>The \<open>if skin_cond == ...\<close> chain that adjusts the freshly built prototype.\<close>

definition adjust :: "nat \<Rightarrow> real list \<Rightarrow> real list" where
  "adjust skin_cond b =
     (if skin_cond = 1 then b[15 := b ! 15 + 0.2]
      else if skin_cond = 2 then b[13 := b ! 13 + 0.2]
      else if skin_cond = 3 then b[17 := b ! 17 + 0.2]
      else b)"

text \<open>The three accumulator lists of the loop, and the generator state.\<close>

record 'g gen_state =
  features_list :: "real list list"
  skin_type_labels :: "nat list"
  skin_cond_labels :: "nat list"
  rng_state :: 'g

text \<open>The body of the innermost loop: one sample is drawn and appended.\<close>

definition sample_features :: "'g rng \<Rightarrow> nat \<Rightarrow> nat \<Rightarrow> 'g \<Rightarrow> real list \<times> 'g" where
  "sample_features R skin_type skin_cond g =
     (let b = adjust skin_cond (base_features skin_type) in
      case normal R 0 (noise_scale skin_type) (length b) g of
        (noise, g') \<Rightarrow> (map (clip 0 1) (map2 (+) b noise), g'))"

definition append_sample :: "'g rng \<Rightarrow> nat \<Rightarrow> nat \<Rightarrow> 'g gen_state \<Rightarrow> 'g gen_state" where
  "append_sample R skin_type skin_cond s =
     (case sample_features R skin_type skin_cond (rng_state s) of
        (features, g') \<Rightarrow>
          \<lparr>features_list = features_list s @ [features],
           skin_type_labels = skin_type_labels s @ [skin_type],
           skin_cond_labels = skin_cond_labels s @ [skin_cond],
           rng_state = g'\<rparr>)"

text \<open>\<open>for _ in range(n_cond_samples)\<close>, with the iteration count already a natural number.\<close>

primrec sample_loop :: "'g rng \<Rightarrow> nat \<Rightarrow> nat \<Rightarrow> nat \<Rightarrow> 'g gen_state \<Rightarrow> 'g gen_state" where
  "sample_loop R skin_type skin_cond 0 s = s"
| "sample_loop R skin_type skin_cond (Suc k) s =
     sample_loop R skin_type skin_cond k (append_sample R skin_type skin_cond s)"

text \<open>
  \<open>for skin_cond in range(4)\<close> and \<open>for skin_type in range(4)\<close>. The sample count is a
  Python \<open>int\<close>; \<open>//\<close> is floor division, as \<open>div\<close> on \<^typ>\<open>int\<close> is, and \<open>range\<close> of
  a negative number is empty, as \<^const>\<open>nat\<close> of it is \<open>0\<close>.
\<close>

definition cond_loop :: "'g rng \<Rightarrow> int \<Rightarrow> nat \<Rightarrow> 'g gen_state \<Rightarrow> 'g gen_state" where
  "cond_loop R n_type_samples skin_type s =
     fold (\<lambda>skin_cond. sample_loop R skin_type skin_cond (nat (n_type_samples div 4)))
       [0..<4] s"

definition type_loop :: "'g rng \<Rightarrow> int \<Rightarrow> 'g gen_state \<Rightarrow> 'g gen_state" where
  "type_loop R n_samples s =
     fold (\<lambda>skin_type. cond_loop R (n_samples div 4) skin_type) [0..<4] s"

text \<open>
  The whole method. The first argument after the library is the state of the global
  generator when the method is called; the method reseeds it with 42 before drawing.
  Nothing in the body can raise in this model, so the \<open>except\<close> branch does not appear.
\<close>

definition generate_synthetic_data ::
  "'g rng \<Rightarrow> 'g \<Rightarrow> int \<Rightarrow> (ndarray \<times> nat list \<times> nat list) \<times> 'g" where
  "generate_synthetic_data R g n_samples =
     (let s = type_loop R n_samples
                \<lparr>features_list = [], skin_type_labels = [], skin_cond_labels = [],
                 rng_state = seed R 42\<rparr>
      in ((np_array (features_list s), skin_type_labels s, skin_cond_labels s), rng_state s))"

text \<open>
  Notions used to state what the generator produces. The number of samples of an array
  is its first dimension; the samples of one stratum are the indices that carry its two
  labels. \<open>spec_sample\<close> builds a sample the way the specification words it: prototype,
  adjusted for the condition, plus noise of the type's scale, clamped to \<open>[0, 1]\<close>.
\<close>

definition n_rows :: "ndarray \<Rightarrow> nat" where
  "n_rows a = (case shape a of [] \<Rightarrow> 0 | n # _ \<Rightarrow> n)"

definition stratum_count :: "ndarray \<times> nat list \<times> nat list \<Rightarrow> nat \<Rightarrow> nat \<Rightarrow> nat" where
  "stratum_count d skin_type skin_cond =
     (case d of (F, ts, cs) \<Rightarrow>
        length (filter (\<lambda>i. ts ! i = skin_type \<and> cs ! i = skin_cond) [0..<n_rows F]))"


definition stratum_labels :: "nat \<Rightarrow> nat \<Rightarrow> (nat \<times> nat) list" where
  "stratum_labels k t = concat (map (\<lambda>c. replicate k (t, c)) [0, Suc 0, 2, 3])"


section \<open>The two classifiers and their standardizers\<close>

text \<open>
  A \<open>StandardScaler\<close> either has no fitted statistics or holds \<open>mean_\<close> and \<open>scale_\<close>;
  \<open>hasattr(scaler, 'scale_')\<close> asks which.
\<close>

datatype scaler = Unfitted | Fitted (fitted_mean: "real list") (fitted_scale: "real list")

definition has_scale :: "scaler \<Rightarrow> bool" where
  "has_scale sc = (case sc of Unfitted \<Rightarrow> False | Fitted mu sd \<Rightarrow> True)"

text \<open>
  \<open>StandardScaler.transform\<close>. scikit-learn validates the input before it computes: it
  raises \<open>NotFittedError\<close> on an unfitted scaler and \<open>ValueError\<close> on an array that is
  not two-dimensional, that has no row or no column, or whose number of columns is not
  the number the scaler was fitted on. A valid input is standardized column by column.
\<close>

definition standardize :: "real list \<Rightarrow> real list \<Rightarrow> nat \<Rightarrow> real list \<Rightarrow> real list" where
  "standardize mu sd m xs =
     map (\<lambda>(j, x). (x - mu ! (j mod m)) / sd ! (j mod m)) (enumerate 0 xs)"

definition transform :: "scaler \<Rightarrow> ndarray \<Rightarrow> py_exn + ndarray" where
  "transform sc a =
     (case sc of
        Unfitted \<Rightarrow> Inl NotFittedError
      | Fitted mu sd \<Rightarrow>
          (case shape a of
             [n, m] \<Rightarrow>
               if n = 0 \<or> m = 0 then Inl ValueError
               else if m \<noteq> length mu then Inl ValueError
               else Inr (Array [n, m] (standardize mu sd m (elems a)))
           | _ \<Rightarrow> Inl ValueError))"

text \<open>
  The rest of scikit-learn is a parameter: the stratified shuffle behind
  \<open>train_test_split\<close>, fitting a scaler (the call changes the scaler in place, also when
  it raises), the random forest (an object of type \<open>'m\<close>: created with its number of
  trees and depth, fitted in place, asked for labels and for class probabilities) and
  the two metrics. Every call may raise.
\<close>

record 'm sklearn =
  shuffle_split ::
    "ndarray \<Rightarrow> nat list \<Rightarrow> py_exn + (ndarray \<times> ndarray \<times> nat list \<times> nat list)"
  scaler_fit :: "scaler \<Rightarrow> ndarray \<Rightarrow> scaler \<times> py_exn option"
  forest_new :: "nat \<Rightarrow> nat \<Rightarrow> 'm"
  forest_fit :: "'m \<Rightarrow> ndarray \<Rightarrow> nat list \<Rightarrow> 'm \<times> py_exn option"
  forest_predict :: "'m \<Rightarrow> ndarray \<Rightarrow> py_exn + nat list"
  forest_predict_proba :: "'m \<Rightarrow> ndarray \<Rightarrow> py_exn + real list list"
  accuracy_score :: "nat list \<Rightarrow> nat list \<Rightarrow> py_exn + real"
  classification_report :: "nat list \<Rightarrow> nat list \<Rightarrow> py_exn option"




text \<open>
  The files written by \<open>joblib.dump\<close> and read by \<open>joblib.load\<close>: one slot for each of the
  four paths, which are taken to be distinct. A file may be missing, unreadable or hold
  an object; writing fails as a whole when the directory is not writable.
\<close>

datatype 'a pkl = Absent | Corrupt | Stored 'a

record 'm disk =
  model_file :: "'m pkl"
  scaler_file :: "scaler pkl"
  cond_model_file :: "'m pkl"
  cond_scaler_file :: "scaler pkl"
  writable :: bool

text \<open>The fields of a \<open>SkinAnalyzer\<close> that the methods below read and write.\<close>

record 'm analyzer =
  model :: "'m option"
  cond_model :: "'m option"
  scaler :: scaler
  cond_scaler :: scaler
  is_trained :: bool
  is_cond_trained :: bool
  files :: "'m disk"





section \<open>Training (\<open>train_model\<close>, \<open>train_condition_model\<close>, \<open>auto_train\<close>)\<close>






section \<open>Prediction (\<open>predict_skin_type\<close>, \<open>predict_skin_condition\<close>)\<close>

text \<open>
  The label dictionaries. The Vietnamese labels are written without their diacritics.
\<close>

definition skin_types :: "nat \<rightharpoonup> string" where
  "skin_types = [0 \<mapsto> ''Da kho'', 1 \<mapsto> ''Da dau'', 2 \<mapsto> ''Da hon hop'', 3 \<mapsto> ''Da nhay cam'']"

definition skin_descriptions :: "string \<rightharpoonup> string" where
  "skin_descriptions =
     [''Da kho'' \<mapsto> ''Da thieu do am, thuong co cam giac cang, bong troc va de xuat hien nep nhan'',
      ''Da dau'' \<mapsto> ''Da tiet nhieu ba nhon, thuong bong va de bi mun trung ca'',
      ''Da hon hop'' \<mapsto> ''Da co vung kho va vung dau, thuong T-zone (tran, mui, cam) dau hon'',
      ''Da nhay cam'' \<mapsto> ''Da de bi kich ung, do, ngua khi tiep xuc voi cac thanh phan my pham'']"

definition skin_conditions :: "nat \<rightharpoonup> string" where
  "skin_conditions =
     [0 \<mapsto> ''Binh thuong'', 1 \<mapsto> ''Mun'', 2 \<mapsto> ''Nam/tan nhang'', 3 \<mapsto> ''Lo chan long to'']"

text \<open>
  A result dictionary with an \<open>error\<close> key holds one of the fixed messages of the source
  or \<open>str(e)\<close> of a caught exception.
\<close>

datatype error_dict = Message string | Raised py_exn

record type_result =
  skin_type :: string
  skin_type_code :: nat
  confidence :: real
  all_probabilities :: "(string \<times> real) list"
  description :: string

record condition_result =
  skin_condition :: string
  cond_confidence :: real
  cond_all_probabilities :: "(string \<times> real) list"

text \<open>\<open>{names[i]: p for i, p in enumerate(probabilities)}\<close>, counting from \<open>i\<close>.\<close>

fun label_probabilities :: "(nat \<rightharpoonup> string) \<Rightarrow> nat \<Rightarrow> real list \<Rightarrow> py_exn + (string \<times> real) list" where
  "label_probabilities names i [] = Inr []"
| "label_probabilities names i (p # ps) =
     (case names i of
        None \<Rightarrow> Inl KeyError
      | Some l \<Rightarrow>
          (case label_probabilities names (Suc i) ps of
             Inl e \<Rightarrow> Inl e
           | Inr r \<Rightarrow> Inr ((l, p) # r)))"

text \<open>\<open>a[0]\<close> and \<open>np.max(a)\<close>, which raise on an empty array.\<close>

definition first :: "'a list \<Rightarrow> py_exn + 'a" where
  "first xs = (case xs of [] \<Rightarrow> Inl IndexError | x # _ \<Rightarrow> Inr x)"

definition np_max :: "real list \<Rightarrow> py_exn + real" where
  "np_max xs = (case xs of [] \<Rightarrow> Inl ValueError | x # ys \<Rightarrow> Inr (fold max ys x))"

definition predict_skin_type ::
  "'m sklearn \<Rightarrow> 'm analyzer \<Rightarrow> ndarray \<Rightarrow> error_dict + type_result" where
  "predict_skin_type L st features =
     (case model st of
        None \<Rightarrow> Inl (Message ''Model chua duoc huan luyen'')
      | Some m \<Rightarrow>
          if \<not> is_trained st then Inl (Message ''Model chua duoc huan luyen'')
          else if \<not> has_scale (scaler st) then
            Inl (Message ''Bo chuan hoa (scaler) chua duoc huan luyen'')
          else
            (case transform (scaler st) (reshape_row features) of
               Inl e \<Rightarrow> Inl (Raised e)
             | Inr features_scaled \<Rightarrow>
                 (case forest_predict L m features_scaled of
                    Inl e \<Rightarrow> Inl (Raised e)
                  | Inr preds \<Rightarrow>
                      (case first preds of
                         Inl e \<Rightarrow> Inl (Raised e)
                       | Inr prediction \<Rightarrow>
                           (case forest_predict_proba L m features_scaled of
                              Inl e \<Rightarrow> Inl (Raised e)
                            | Inr probas \<Rightarrow>
                                (case first probas of
                                   Inl e \<Rightarrow> Inl (Raised e)
                                 | Inr probabilities \<Rightarrow>
                                     (case skin_types prediction of
                                        None \<Rightarrow> Inl (Raised KeyError)
                                      | Some label \<Rightarrow>
                                          if \<not> prediction < length probabilities then
                                            Inl (Raised IndexError)
                                          else
                                            (case label_probabilities skin_types 0 probabilities of
                                               Inl e \<Rightarrow> Inl (Raised e)
                                             | Inr all \<Rightarrow>
                                                 (case skin_descriptions label of
                                                    None \<Rightarrow> Inl (Raised KeyError)
                                                  | Some d \<Rightarrow>
                                                      Inr \<lparr>skin_type = label,
                                                           skin_type_code = prediction,
                                                           confidence = probabilities ! prediction,
                                                           all_probabilities = all,
                                                           description = d\<rparr>)))))))))"

definition predict_skin_condition ::
  "'m sklearn \<Rightarrow> 'm analyzer \<Rightarrow> ndarray \<Rightarrow> error_dict + condition_result" where
  "predict_skin_condition L st features =
     (case cond_model st of
        None \<Rightarrow> Inl (Message ''Model tinh trang da chua duoc huan luyen'')
      | Some m \<Rightarrow>
          if \<not> is_cond_trained st then Inl (Message ''Model tinh trang da chua duoc huan luyen'')
          else if \<not> has_scale (cond_scaler st) then
            Inl (Message ''Bo chuan hoa (scaler) cho tinh trang da chua duoc huan luyen'')
          else
            (case transform (cond_scaler st) features of
               Inl e \<Rightarrow> Inl (Raised e)
             | Inr features_scaled \<Rightarrow>
                 (case forest_predict L m features_scaled of
                    Inl e \<Rightarrow> Inl (Raised e)
                  | Inr preds \<Rightarrow>
                      (case first preds of
                         Inl e \<Rightarrow> Inl (Raised e)
                       | Inr pred \<Rightarrow>
                           (case forest_predict_proba L m features_scaled of
                              Inl e \<Rightarrow> Inl (Raised e)
                            | Inr probas \<Rightarrow>
                                (case first probas of
                                   Inl e \<Rightarrow> Inl (Raised e)
                                 | Inr proba \<Rightarrow>
                                     (case np_max proba of
                                        Inl e \<Rightarrow> Inl (Raised e)
                                      | Inr c \<Rightarrow>
                                          (case label_probabilities skin_conditions 0 proba of
                                             Inl e \<Rightarrow> Inl (Raised e)
                                           | Inr all \<Rightarrow>
                                               Inr \<lparr>skin_condition =
                                                      (case skin_conditions pred of
                                                         None \<Rightarrow> ''Khong xac dinh''
                                                       | Some l \<Rightarrow> l),
                                                    cond_confidence = c,
                                                    cond_all_probabilities = all\<rparr>))))))))"

section \<open>Feature extraction (\<open>extract_skin_features\<close>)\<close>

text \<open>
  A colour image is a list of rows of BGR pixels with 8-bit channels, a grayscale image
  a list of rows of bytes.
\<close>

type_synonym pixel = "8 word \<times> 8 word \<times> 8 word"

type_synonym image = "pixel list list"

type_synonym gray_image = "8 word list list"

text \<open>A Python slice \<open>xs[start:stop]\<close>: negative bounds count from the end, all are clamped.\<close>

definition py_slice :: "int \<Rightarrow> int \<Rightarrow> 'a list \<Rightarrow> 'a list" where
  "py_slice start stop xs =
     (let n = int (length xs);
          lo = (if start < 0 then max (start + n) 0 else min start n);
          hi = (if stop < 0 then max (stop + n) 0 else min stop n)
      in take (nat (hi - lo)) (drop (nat lo) xs))"

text \<open>\<open>image[y:y+h, x:x+w]\<close>.\<close>

definition crop :: "image \<Rightarrow> int \<times> int \<times> int \<times> int \<Rightarrow> image" where
  "crop img face_coords =
     (case face_coords of (x, y, w, h) \<Rightarrow> map (py_slice x (x + w)) (py_slice y (y + h) img))"

text \<open>
  The colour conversions and the statistics of OpenCV and NumPy are parameters; each may
  raise. \<open>cv_mean\<close> stands for \<open>cv2.mean(img)[:3]\<close>, \<open>np_std\<close> for
  \<open>np.std(img, axis=(0, 1))[:3]\<close>, \<open>laplacian_var\<close> for
  \<open>cv2.Laplacian(gray, cv2.CV_64F).var()\<close> and \<open>sobel_magnitude_mean\<close> for the mean of
  \<open>np.sqrt(grad_x**2 + grad_y**2)\<close> over the two Sobel derivatives.
\<close>

record cv =
  bgr2hsv :: "image \<Rightarrow> py_exn + image"
  bgr2lab :: "image \<Rightarrow> py_exn + image"
  bgr2gray :: "image \<Rightarrow> py_exn + gray_image"
  cv_mean :: "image \<Rightarrow> py_exn + real \<times> real \<times> real"
  np_std :: "image \<Rightarrow> py_exn + real \<times> real \<times> real"
  laplacian_var :: "gray_image \<Rightarrow> py_exn + real"
  gray_std :: "gray_image \<Rightarrow> py_exn + real"
  gray_mean :: "gray_image \<Rightarrow> py_exn + real"
  sobel_magnitude_mean :: "gray_image \<Rightarrow> py_exn + real"

text \<open>\<open>cv2.cvtColor\<close> raises \<open>cv2.error\<close> on an image without pixels.\<close>

definition cvtColor :: "(image \<Rightarrow> py_exn + 'a) \<Rightarrow> image \<Rightarrow> py_exn + 'a" where
  "cvtColor code src = (if concat src = [] then Inl cv2_error else code src)"

text \<open>
  \<open>cv2.threshold(src, thresh, maxval, cv2.THRESH_BINARY)[1]\<close> sets a pixel to \<open>maxval\<close>
  when it is above \<open>thresh\<close> and to \<open>0\<close> otherwise; \<open>cv2.countNonZero\<close> counts the
  pixels that are not \<open>0\<close>; \<open>gray.size\<close> is the number of pixels.
\<close>

definition threshold_binary :: "gray_image \<Rightarrow> 8 word \<Rightarrow> 8 word \<Rightarrow> gray_image" where
  "threshold_binary src thresh maxval = map (map (\<lambda>p. if thresh < p then maxval else 0)) src"

definition countNonZero :: "gray_image \<Rightarrow> nat" where
  "countNonZero src = length (filter (\<lambda>p. p \<noteq> 0) (concat src))"

definition size_of :: "gray_image \<Rightarrow> nat" where
  "size_of src = length (concat src)"

text \<open>\<open>a / b\<close> on two Python integers.\<close>

definition truediv :: "nat \<Rightarrow> nat \<Rightarrow> py_exn + real" where
  "truediv a b = (if b = 0 then Inl ZeroDivisionError else Inr (real a / real b))"

text \<open>The \<open>try\<close> block: the eighteen features in their order, or the exception raised.\<close>

definition extract_body :: "cv \<Rightarrow> image \<Rightarrow> int \<times> int \<times> int \<times> int \<Rightarrow> py_exn + real list" where
  "extract_body C img face_coords =
     (let face_roi = crop img face_coords in
      (case cvtColor (bgr2hsv C) face_roi of Inl e \<Rightarrow> Inl e | Inr hsv \<Rightarrow>
      (case cvtColor (bgr2lab C) face_roi of Inl e \<Rightarrow> Inl e | Inr lab \<Rightarrow>
      (case cvtColor (bgr2gray C) face_roi of Inl e \<Rightarrow> Inl e | Inr gray \<Rightarrow>
      (case cv_mean C hsv of Inl e \<Rightarrow> Inl e | Inr (h_mean, s_mean, v_mean) \<Rightarrow>
      (case np_std C hsv of Inl e \<Rightarrow> Inl e | Inr (h_std, s_std, v_std) \<Rightarrow>
      (case cv_mean C lab of Inl e \<Rightarrow> Inl e | Inr (l_mean, a_mean, b_mean) \<Rightarrow>
      (case np_std C lab of Inl e \<Rightarrow> Inl e | Inr (l_std, a_std, b_std) \<Rightarrow>
      (case laplacian_var C gray of Inl e \<Rightarrow> Inl e | Inr lap_var_raw \<Rightarrow>
      (case gray_std C gray of Inl e \<Rightarrow> Inl e | Inr std \<Rightarrow>
      (case gray_mean C gray of Inl e \<Rightarrow> Inl e | Inr mean \<Rightarrow>
      (let dark_spots = countNonZero (threshold_binary gray 127 255);
           total_pixels = size_of gray in
      (case truediv dark_spots total_pixels of Inl e \<Rightarrow> Inl e | Inr dark_spot_ratio \<Rightarrow>
      (let oily_areas = countNonZero (threshold_binary gray 200 255) in
      (case truediv oily_areas total_pixels of Inl e \<Rightarrow> Inl e | Inr oily_ratio \<Rightarrow>
      (case sobel_magnitude_mean C gray of Inl e \<Rightarrow> Inl e | Inr gradient_mean \<Rightarrow>
         Inr [h_mean / 179, s_mean / 255, v_mean / 255, h_std / 90, s_std / 128, v_std / 128,
              l_mean / 255, a_mean / 255, b_mean / 255, l_std / 128, a_std / 128, b_std / 128,
              min (lap_var_raw / 1000) 1, min (std / 128) 1, mean / 255,
              dark_spot_ratio, oily_ratio, min (gradient_mean / 255) 1]))))))))))))))))"

text \<open>
  \<open>extract_skin_features\<close>: the \<open>except\<close> branch logs the exception and returns
  \<open>np.zeros(18)\<close>.
\<close>

definition extract_skin_features :: "cv \<Rightarrow> image \<Rightarrow> int \<times> int \<times> int \<times> int \<Rightarrow> real list" where
  "extract_skin_features C img face_coords =
     (case extract_body C img face_coords of
        Inl e \<Rightarrow> replicate 18 0
      | Inr features \<Rightarrow> features)"

section \<open>Concrete libraries for running the model\<close>

text \<open>
  Simple stand-ins for the library parameters, with which the model can be run on
  concrete inputs. A linear congruential generator stands in for NumPy's: different
  seeds give different states and different first draws.
\<close>

definition lcg_next :: "nat \<Rightarrow> nat" where
  "lcg_next g = (1103515245 * g + 12345) mod 2147483648"

definition lcg :: "nat rng" where
  "lcg = \<lparr>seed = (\<lambda>s. s mod 2147483648),
          gauss = (\<lambda>g. (real (lcg_next g) / 1073741824 - 1, lcg_next g))\<rparr>"

text \<open>
  The identity as colour conversion, the green channel as gray value, and statistics
  that are constantly zero.
\<close>

definition plain_cv :: cv where
  "plain_cv =
     \<lparr>bgr2hsv = Inr, bgr2lab = Inr,
      bgr2gray = (\<lambda>src. Inr (map (map (\<lambda>(b, g, r). g)) src)),
      cv_mean = (\<lambda>src. Inr (0, 0, 0)), np_std = (\<lambda>src. Inr (0, 0, 0)),
      laplacian_var = (\<lambda>src. Inr 0), gray_std = (\<lambda>src. Inr 0),
      gray_mean = (\<lambda>src. Inr 0), sobel_magnitude_mean = (\<lambda>src. Inr 0)\<rparr>"

text \<open>
  A split that tests on the training data, a scaler fit that shifts and scales nothing, a
  forest that always answers class 0, and the fraction of equal labels as accuracy.
\<close>

definition columns :: "ndarray \<Rightarrow> nat" where
  "columns a = (case shape a of [n, m] \<Rightarrow> m | _ \<Rightarrow> 0)"

definition plain_sklearn :: "unit sklearn" where
  "plain_sklearn =
     \<lparr>shuffle_split = (\<lambda>X y. Inr (X, X, y, y)),
      scaler_fit = (\<lambda>sc X. (Fitted (replicate (columns X) 0) (replicate (columns X) 1), None)),
      forest_new = (\<lambda>n_estimators max_depth. ()),
      forest_fit = (\<lambda>m X y. (m, None)),
      forest_predict = (\<lambda>m X. Inr (replicate (n_rows X) 0)),
      forest_predict_proba = (\<lambda>m X. Inr (replicate (n_rows X) [1, 0, 0, 0])),
      accuracy_score =
        (\<lambda>y_true y_pred.
           if length y_true \<noteq> length y_pred \<or> y_true = [] then Inl ValueError
           else Inr (real (length (filter (\<lambda>(a, b). a = b) (zip y_true y_pred)))
                     / real (length y_true))),
      classification_report = (\<lambda>y_true y_pred. None)\<rparr>"

text \<open>An object as these libraries leave it after training on 18 features.\<close>

definition trained_analyzer :: "unit analyzer" where
  "trained_analyzer =
     \<lparr>model = Some (), cond_model = Some (),
      scaler = Fitted (replicate 18 0) (replicate 18 1),
      cond_scaler = Fitted (replicate 18 0) (replicate 18 1),
      is_trained = True, is_cond_trained = True,
      files = \<lparr>model_file = Stored (),
               scaler_file = Stored (Fitted (replicate 18 0) (replicate 18 1)),
               cond_model_file = Stored (),
               cond_scaler_file = Stored (Fitted (replicate 18 0) (replicate 18 1)),
               writable = True\<rparr>\<rparr>"

section \<open>Properties of the generator\<close>

lemma upt4: "[0..<4] = [0, Suc 0, 2, 3]"
  by (simp add: upt_rec)



lemma sample_loop_labels:
  "skin_type_labels (sample_loop R t c k s) = skin_type_labels s @ replicate k t \<and>
   skin_cond_labels (sample_loop R t c k s) = skin_cond_labels s @ replicate k c \<and>
   length (features_list (sample_loop R t c k s)) = length (features_list s) + k"
  by (induction k arbitrary: s)
     (auto simp: append_sample_def replicate_app_Cons_same split: prod.splits)

lemma cond_loop_labels:
  "skin_type_labels (cond_loop R m t s) = skin_type_labels s @ replicate (4 * nat (m div 4)) t \<and>
   skin_cond_labels (cond_loop R m t s) =
     skin_cond_labels s @ replicate (nat (m div 4)) 0 @ replicate (nat (m div 4)) (Suc 0) @
       replicate (nat (m div 4)) 2 @ replicate (nat (m div 4)) 3 \<and>
   length (features_list (cond_loop R m t s)) = length (features_list s) + 4 * nat (m div 4)"
  by (simp add: cond_loop_def upt4 sample_loop_labels replicate_add [symmetric])

lemma zip_cond_block:
  "zip (replicate (4 * k) t)
     (replicate k 0 @ replicate k (Suc 0) @ replicate k 2 @ replicate k 3) = stratum_labels k t"
proof -
  have "replicate (4 * k) t = replicate k t @ replicate k t @ replicate k t @ replicate k t"
    by (simp add: replicate_add [symmetric])
  then show ?thesis
    by (simp add: stratum_labels_def)
qed

lemma count_list_replicate: "count_list (replicate k x) y = (if x = y then k else 0)"
  by (induction k) auto

lemma cond_loop_zip:
  assumes "length (skin_type_labels s) = length (skin_cond_labels s)"
  shows "zip (skin_type_labels (cond_loop R m t s)) (skin_cond_labels (cond_loop R m t s)) =
           zip (skin_type_labels s) (skin_cond_labels s) @ stratum_labels (nat (m div 4)) t"
  using assms by (simp add: cond_loop_labels zip_cond_block)

lemma cond_loop_lengths:
  "length (skin_type_labels (cond_loop R m t s)) = length (skin_type_labels s) + 4 * nat (m div 4)"
  "length (skin_cond_labels (cond_loop R m t s)) = length (skin_cond_labels s) + 4 * nat (m div 4)"
  "length (features_list (cond_loop R m t s)) = length (features_list s) + 4 * nat (m div 4)"
  by (simp_all add: cond_loop_labels)

lemma type_loop_labels:
  assumes "features_list s0 = []" "skin_type_labels s0 = []" "skin_cond_labels s0 = []"
  shows "zip (skin_type_labels (type_loop R n s0)) (skin_cond_labels (type_loop R n s0)) =
           concat (map (stratum_labels (nat (n div 4 div 4))) [0, Suc 0, 2, 3])"
    and "length (features_list (type_loop R n s0)) = 16 * nat (n div 4 div 4)"
    and "length (skin_type_labels (type_loop R n s0)) = 16 * nat (n div 4 div 4)"
    and "length (skin_cond_labels (type_loop R n s0)) = 16 * nat (n div 4 div 4)"
  using assms by (simp_all add: type_loop_def upt4 cond_loop_zip cond_loop_lengths)

lemma count_stratum_labels:
  "count_list (stratum_labels k t) (t', c) =
     (if t' = t \<and> c \<in> {0, Suc 0, 2, 3} then k else 0)"
  by (auto simp: stratum_labels_def count_list_replicate)

lemma div4_div4: "(n::int) div 4 div 4 = n div 16"
  by (simp add: div_mult2_eq [symmetric])

lemma lt4_cases: "t < 4 \<longleftrightarrow> t \<in> {0, Suc 0, 2, 3}"
  by auto

lemma count_all_strata:
  "t < 4 \<Longrightarrow> c < 4 \<Longrightarrow>
   count_list (concat (map (stratum_labels k) [0, Suc 0, 2, 3])) (t, c) = k"
  by (auto simp: count_stratum_labels lt4_cases)

lemma count_indices: "length (filter (\<lambda>i. xs ! i = x) [0..<length xs]) = count_list xs x"
proof (induction xs rule: rev_induct)
  case Nil
  show ?case by simp
next
  case (snoc y ys)
  have "filter (\<lambda>i. (ys @ [y]) ! i = x) [0..<length ys] = filter (\<lambda>i. ys ! i = x) [0..<length ys]"
    by (rule filter_cong) (auto simp: nth_append)
  with snoc show ?case by simp
qed

lemma n_rows_np_array: "n_rows (np_array F) = length F"
  by (cases F) (simp_all add: n_rows_def np_array_def)

lemma stratum_count_zip:
  assumes "length ts = length F" "length cs = length F"
  shows "stratum_count (np_array F, ts, cs) t c = count_list (zip ts cs) (t, c)"
proof -
  have "filter (\<lambda>i. ts ! i = t \<and> cs ! i = c) [0..<length F] =
        filter (\<lambda>i. zip ts cs ! i = (t, c)) [0..<length (zip ts cs)]"
    using assms by (intro filter_cong) auto
  then have "stratum_count (np_array F, ts, cs) t c =
               length (filter (\<lambda>i. zip ts cs ! i = (t, c)) [0..<length (zip ts cs)])"
    by (simp only: stratum_count_def prod.case n_rows_np_array)
  then show ?thesis
    by (simp only: count_indices)
qed

text \<open>The state in which the loops start, and what the method returns from their result.\<close>

lemma generate_unfold:
  "generate_synthetic_data R g n =
     ((np_array (features_list (type_loop R n \<lparr>features_list = [], skin_type_labels = [],
          skin_cond_labels = [], rng_state = seed R 42\<rparr>)),
       skin_type_labels (type_loop R n \<lparr>features_list = [], skin_type_labels = [],
          skin_cond_labels = [], rng_state = seed R 42\<rparr>),
       skin_cond_labels (type_loop R n \<lparr>features_list = [], skin_type_labels = [],
          skin_cond_labels = [], rng_state = seed R 42\<rparr>)),
      rng_state (type_loop R n \<lparr>features_list = [], skin_type_labels = [],
          skin_cond_labels = [], rng_state = seed R 42\<rparr>))"
  by (simp add: generate_synthetic_data_def Let_def)

lemma generate_count:
  "n_rows (fst (fst (generate_synthetic_data R g n))) = 16 * nat (n div 16)"
  "length (fst (snd (fst (generate_synthetic_data R g n)))) = 16 * nat (n div 16)"
  "length (snd (snd (fst (generate_synthetic_data R g n)))) = 16 * nat (n div 16)"
  using type_loop_labels(2-4) [of _ R n]
  by (simp_all add: generate_unfold n_rows_np_array div4_div4)

lemma generate_stratum:
  assumes "t < 4" and "c < 4"
  shows "stratum_count (fst (generate_synthetic_data R g n)) t c = nat (n div 16)"
proof -
  let ?s = "type_loop R n \<lparr>features_list = [], skin_type_labels = [], skin_cond_labels = [],
                rng_state = seed R 42\<rparr>"
  have z: "zip (skin_type_labels ?s) (skin_cond_labels ?s) =
             concat (map (stratum_labels (nat (n div 16))) [0, Suc 0, 2, 3])"
    and l: "length (features_list ?s) = 16 * nat (n div 16)"
           "length (skin_type_labels ?s) = 16 * nat (n div 16)"
           "length (skin_cond_labels ?s) = 16 * nat (n div 16)"
    using type_loop_labels [of _ R n] by (simp_all add: div4_div4)
  have "stratum_count (np_array (features_list ?s), skin_type_labels ?s, skin_cond_labels ?s) t c =
          count_list (zip (skin_type_labels ?s) (skin_cond_labels ?s)) (t, c)"
    by (rule stratum_count_zip) (simp_all add: l)
  also have "\<dots> = nat (n div 16)"
    unfolding z using assms by (rule count_all_strata)
  finally show ?thesis
    by (simp add: generate_unfold)
qed













text \<open>
  C3. For every sample count \<open>n\<close>, the generator produces \<open>floor(n / 16)\<close> samples for each
  of the sixteen (skin type, skin condition) strata and \<open>16 * floor(n / 16)\<close> samples in
  all; the remainder is dropped. (A negative \<open>n\<close> gives no sample at all, which is what
  \<open>nat\<close> of the negative quotient says.)
\<close>

theorem generate_strata:
  assumes "t < 4" and "c < 4"
  shows "stratum_count (fst (generate_synthetic_data R g n)) t c = nat (n div 16) \<and>
         n_rows (fst (fst (generate_synthetic_data R g n))) = 16 * nat (n div 16) \<and>
         length (fst (snd (fst (generate_synthetic_data R g n)))) = 16 * nat (n div 16) \<and>
         length (snd (snd (fst (generate_synthetic_data R g n)))) = 16 * nat (n div 16) \<and>
         (0 \<le> n \<longrightarrow>
            int (stratum_count (fst (generate_synthetic_data R g n)) t c) = n div 16 \<and>
            int (n_rows (fst (fst (generate_synthetic_data R g n)))) = 16 * (n div 16))"
  using assms by (simp add: generate_stratum generate_count pos_imp_zdiv_nonneg_iff)

theorem generate_strata_witness:
  "(2::nat) < 4 \<and> (3::nat) < 4 \<and> (0::int) \<le> 1000 \<and>
   stratum_count (fst (generate_synthetic_data lcg 0 1000)) 2 3 = 62 \<and>
   n_rows (fst (fst (generate_synthetic_data lcg 0 1000))) = 992"
  using generate_strata [of 2 3 lcg 0 1000] by simp



text \<open>
  C8, as the code has it. The method takes no seed: it reseeds the global generator with
  42 itself, so its result is the same whatever state, and so whatever seed, the
  generator had when the method was called.
\<close>

theorem generate_ignores_seed:
  "generate_synthetic_data R g n = generate_synthetic_data R g' n"
  by (simp add: generate_synthetic_data_def)

text \<open>
  C8, as stated, fails: two runs after different seeds, whose first draws would differ,
  yield the same 992 samples.
\<close>

theorem generate_seed_counterexample:
  "seed lcg 1 \<noteq> seed lcg 2 \<and>
   fst (gauss lcg (seed lcg 1)) \<noteq> fst (gauss lcg (seed lcg 2)) \<and>
   fst (generate_synthetic_data lcg (seed lcg 1) 1000) =
   fst (generate_synthetic_data lcg (seed lcg 2) 1000)"
  by (simp add: lcg_def lcg_next_def generate_synthetic_data_def)

section \<open>Properties of training\<close>









section \<open>Properties of prediction\<close>




lemma transform_Inr:
  "transform sc a = Inr b \<Longrightarrow>
     \<exists>n mu sd. sc = Fitted mu sd \<and> shape a = [n, length mu] \<and> 0 < n \<and> 0 < length mu"
  by (auto simp: transform_def split: scaler.splits list.splits if_splits)

lemma transform_flat:
  "shape a = [n] \<Longrightarrow> transform (Fitted mu sd) a = Inl ValueError"
  by (simp add: transform_def)

lemma predict_skin_type_Inr:
  "predict_skin_type L st a = Inr r \<Longrightarrow> \<exists>b. transform (scaler st) (reshape_row a) = Inr b"
  by (auto simp: predict_skin_type_def split: option.splits if_splits sum.splits)

lemma predict_skin_condition_Inr:
  "predict_skin_condition L st a = Inr r \<Longrightarrow> \<exists>b. transform (cond_scaler st) a = Inr b"
  by (auto simp: predict_skin_condition_def split: option.splits if_splits sum.splits)

lemma reshape_row_Array: "reshape_row (Array sh v) = Array [1, length v] v"
  by (simp add: reshape_row_def)

lemma predict_skin_type_reshape:
  "predict_skin_type L st (Array sh v) = predict_skin_type L st (Array [1, length v] v)"
  unfolding predict_skin_type_def reshape_row_Array by (rule refl)

lemma both_succeed_shape:
  assumes "wf_array a"
    and "scaler st = Fitted mu sd" and "length mu = 18"
    and "cond_scaler st = Fitted mu' sd'" and "length mu' = 18"
    and "predict_skin_type L st a = Inr r" and "predict_skin_condition L st a = Inr r'"
  shows "shape a = [1, 18]"
proof -
  from assms(6) obtain b where "transform (scaler st) (reshape_row a) = Inr b"
    using predict_skin_type_Inr by blast
  with assms(2,3) have size: "length (elems a) = 18"
    by (auto simp: reshape_row_def dest!: transform_Inr)
  from assms(7) obtain b' where "transform (cond_scaler st) a = Inr b'"
    using predict_skin_condition_Inr by blast
  with assms(4,5) obtain n where n: "shape a = [n, 18]"
    by (auto dest!: transform_Inr)
  with assms(1) size have "n * 18 = 18"
    by (simp add: wf_array_def)
  then have "n = 1" by simp
  with n show ?thesis by simp
qed


text \<open>
  C9. On a component whose two classifiers are loaded and whose two standardizers were
  fitted on 18 features: \<open>predict_skin_type\<close> reshapes its argument to one row, so the
  standardizer accepts a flat 18-vector and the result is that for the \<open>(1, 18)\<close> array
  with the same elements; \<open>predict_skin_condition\<close> hands the flat vector to its
  standardizer unreshaped and returns the error of the \<open>ValueError\<close> raised there; and
  an array on which both predictors return a prediction has shape \<open>(1, 18)\<close>.
\<close>

theorem predictors_input_shape:
  assumes "is_trained st" and "model st = Some m"
    and "scaler st = Fitted mu sd" and "length mu = 18"
    and "is_cond_trained st" and "cond_model st = Some m'"
    and "cond_scaler st = Fitted mu' sd'" and "length mu' = 18"
    and "length v = 18"
  shows "transform (scaler st) (reshape_row (Array [18] v)) =
           Inr (Array [1, 18] (standardize mu sd 18 v)) \<and>
         predict_skin_type L st (Array [18] v) = predict_skin_type L st (Array [1, 18] v) \<and>
         predict_skin_condition L st (Array [18] v) = Inl (Raised ValueError) \<and>
         (\<forall>a r r'. wf_array a \<and> predict_skin_type L st a = Inr r \<and>
            predict_skin_condition L st a = Inr r' \<longrightarrow> shape a = [1, 18])"
proof (intro conjI allI impI)
  show "transform (scaler st) (reshape_row (Array [18] v)) =
          Inr (Array [1, 18] (standardize mu sd 18 v))"
    using assms(3,4,9) by (simp add: transform_def reshape_row_def)
  show "predict_skin_type L st (Array [18] v) = predict_skin_type L st (Array [1, 18] v)"
    using predict_skin_type_reshape [of L st _ v] assms(9) by simp
  show "predict_skin_condition L st (Array [18] v) = Inl (Raised ValueError)"
    using assms(5-7) by (simp add: predict_skin_condition_def has_scale_def transform_flat)
next
  fix a r r'
  assume "wf_array a \<and> predict_skin_type L st a = Inr r \<and>
          predict_skin_condition L st a = Inr r'"
  with assms(3,4,7,8) show "shape a = [1, 18]"
    using both_succeed_shape by blast
qed

lemma flat_vector_runs:
  "predict_skin_type plain_sklearn trained_analyzer (Array [18] (replicate 18 0)) =
     Inr \<lparr>skin_type = ''Da kho'', skin_type_code = 0, confidence = 1,
          all_probabilities =
            [(''Da kho'', 1), (''Da dau'', 0), (''Da hon hop'', 0), (''Da nhay cam'', 0)],
          description =
            ''Da thieu do am, thuong co cam giac cang, bong troc va de xuat hien nep nhan''\<rparr>"
  by (simp add: predict_skin_type_def trained_analyzer_def has_scale_def transform_def
      reshape_row_def plain_sklearn_def n_rows_def first_def skin_types_def
      skin_descriptions_def)

theorem predictors_input_shape_witness:
  "predict_skin_type plain_sklearn trained_analyzer (Array [1, 18] (replicate 18 0)) =
     Inr \<lparr>skin_type = ''Da kho'', skin_type_code = 0, confidence = 1,
          all_probabilities =
            [(''Da kho'', 1), (''Da dau'', 0), (''Da hon hop'', 0), (''Da nhay cam'', 0)],
          description =
            ''Da thieu do am, thuong co cam giac cang, bong troc va de xuat hien nep nhan''\<rparr> \<and>
   predict_skin_condition plain_sklearn trained_analyzer (Array [18] (replicate 18 0)) =
     Inl (Raised ValueError)"
  using predictors_input_shape [of trained_analyzer "()" "replicate 18 0" "replicate 18 1"
      "()" "replicate 18 0" "replicate 18 1" "replicate 18 0" plain_sklearn]
    flat_vector_runs
  by (simp add: trained_analyzer_def)

section \<open>Properties of feature extraction\<close>

lemma truediv_Inr: "truediv a b = Inr q \<Longrightarrow> 0 < b \<and> q = real a / real b"
  by (auto simp: truediv_def split: if_splits)

lemma extract_body_Inr:
  assumes "extract_body C img fc = Inr fs"
  shows "length fs = 18 \<and>
         (\<exists>gray. cvtColor (bgr2gray C) (crop img fc) = Inr gray \<and> 0 < size_of gray \<and>
            fs ! 15 = real (countNonZero (threshold_binary gray 127 255)) / real (size_of gray) \<and>
            fs ! 16 = real (countNonZero (threshold_binary gray 200 255)) / real (size_of gray))"
  using assms unfolding extract_body_def Let_def
  by (auto split: sum.splits prod.splits dest!: truediv_Inr)

lemma countNonZero_threshold:
  "countNonZero (threshold_binary gray t 255) = length (filter (\<lambda>p. t < p) (concat gray))"
proof -
  have "length (filter (\<lambda>p. p \<noteq> 0) (map (\<lambda>p. if t < p then 255 else (0::8 word)) xs)) =
        length (filter (\<lambda>p. t < p) xs)" for xs :: "8 word list"
    by (induction xs) auto
  then show ?thesis
    by (simp add: countNonZero_def threshold_binary_def map_concat [symmetric])
qed

lemma bright_le_dark:
  "countNonZero (threshold_binary gray 200 255) \<le> countNonZero (threshold_binary gray 127 255)"
proof -
  have "(200::8 word) < p \<Longrightarrow> 127 < p" for p :: "8 word"
    by (simp add: word_less_def)
  then have "length (filter (\<lambda>p. (200::8 word) < p) xs) \<le> length (filter (\<lambda>p. 127 < p) xs)"
    for xs :: "8 word list"
    by (induction xs) auto
  then show ?thesis
    by (simp only: countNonZero_threshold)
qed

lemma empty_crop_raises:
  "concat (crop img fc) = [] \<Longrightarrow> extract_body C img fc = Inl cv2_error"
  by (simp add: extract_body_def cvtColor_def)


text \<open>
  C1. Whatever the image and the rectangle, \<open>extract_skin_features\<close> returns 18 numbers:
  the model has no outcome other than a returned list. When the \<open>try\<close> block raises, for
  whatever reason, the result is the all-zero vector; a crop without pixels makes the
  colour conversion raise, so it is one of these cases.
\<close>

theorem extract_never_fails:
  "length (extract_skin_features C img face_coords) = 18 \<and>
   (\<forall>e. extract_body C img face_coords = Inl e \<longrightarrow>
      extract_skin_features C img face_coords = replicate 18 0) \<and>
   (concat (crop img face_coords) = [] \<longrightarrow>
      extract_skin_features C img face_coords = replicate 18 0)"
proof (intro conjI allI impI)
  show "length (extract_skin_features C img face_coords) = 18"
  proof (cases "extract_body C img face_coords")
    case (Inl e)
    then show ?thesis by (simp add: extract_skin_features_def)
  next
    case (Inr fs)
    with extract_body_Inr [OF Inr] show ?thesis by (simp add: extract_skin_features_def)
  qed
next
  fix e assume "extract_body C img face_coords = Inl e"
  then show "extract_skin_features C img face_coords = replicate 18 0"
    by (simp add: extract_skin_features_def)
next
  assume "concat (crop img face_coords) = []"
  then show "extract_skin_features C img face_coords = replicate 18 0"
    by (simp add: extract_skin_features_def empty_crop_raises)
qed

theorem extract_never_fails_witness:
  "concat (crop [[(10, 20, 30), (40, 50, 60)], [(70, 80, 90), (100, 110, 120)]] (5, 5, 2, 2)) = [] \<and>
   extract_skin_features plain_cv
     [[(10, 20, 30), (40, 50, 60)], [(70, 80, 90), (100, 110, 120)]] (5, 5, 2, 2) =
     replicate 18 0"
  using extract_never_fails [of plain_cv
      "[[(10, 20, 30), (40, 50, 60)], [(70, 80, 90), (100, 110, 120)]]" "(5, 5, 2, 2)"]
  by (simp add: crop_def py_slice_def)

lemma extract_example:
  "extract_body plain_cv
     [[(0, 100, 0), (0, 150, 0)], [(0, 210, 0), (0, 250, 0)]] (0, 0, 2, 2) =
   Inr [0, 0, 0, 0, 0, 0, 0, 0, 0, 0, 0, 0, 0, 0, 0, 3 / 4, 1 / 2, 0]"
  by (simp add: extract_body_def crop_def py_slice_def cvtColor_def plain_cv_def
      countNonZero_def threshold_binary_def size_of_def truediv_def)

text \<open>
  C10. When extraction succeeds, feature 15 is the fraction of the gray pixels above 127
  and feature 16 the fraction of the same pixels above 200, so feature 16 is at most
  feature 15.
\<close>

theorem oily_ratio_le_dark_spot_ratio:
  assumes "extract_body C img face_coords = Inr features"
  shows "extract_skin_features C img face_coords = features \<and>
         features ! 16 \<le> features ! 15 \<and>
         (\<exists>gray. cvtColor (bgr2gray C) (crop img face_coords) = Inr gray \<and>
            features ! 15 =
              real (length (filter (\<lambda>p. 127 < p) (concat gray))) / real (length (concat gray)) \<and>
            features ! 16 =
              real (length (filter (\<lambda>p. 200 < p) (concat gray))) / real (length (concat gray)))"
proof -
  from extract_body_Inr [OF assms] obtain gray where
    g: "cvtColor (bgr2gray C) (crop img face_coords) = Inr gray" "0 < size_of gray"
      "features ! 15 = real (countNonZero (threshold_binary gray 127 255)) / real (size_of gray)"
      "features ! 16 = real (countNonZero (threshold_binary gray 200 255)) / real (size_of gray)"
    by blast
  have "features ! 16 \<le> features ! 15"
    unfolding g(3,4) using bright_le_dark [of gray] g(2)
    by (simp add: divide_right_mono)
  moreover have "extract_skin_features C img face_coords = features"
    using assms by (simp add: extract_skin_features_def)
  ultimately show ?thesis
    using g by (auto simp: countNonZero_threshold size_of_def)
qed

theorem oily_ratio_le_dark_spot_ratio_witness:
  "extract_skin_features plain_cv
     [[(0, 100, 0), (0, 150, 0)], [(0, 210, 0), (0, 250, 0)]] (0, 0, 2, 2) =
     [0, 0, 0, 0, 0, 0, 0, 0, 0, 0, 0, 0, 0, 0, 0, 3 / 4, 1 / 2, 0] \<and>
   [0, 0, 0, 0, 0, 0, 0, 0, 0, 0, 0, 0, 0, 0, 0, 3 / 4, 1 / 2, 0 :: real] ! 16
     \<le> [0, 0, 0, 0, 0, 0, 0, 0, 0, 0, 0, 0, 0, 0, 0, 3 / 4, 1 / 2, 0] ! 15"
  using oily_ratio_le_dark_spot_ratio [OF extract_example] by blast

end
